theory Spec2Isabelle
  imports Main "HOL-Library.Word"
begin

section \<open>Shared model: sources, manifests, failures\<close>

text \<open>
  The \<^verbatim>\<open>snapshot\<close> package (its types \<^verbatim>\<open>SourceInfo\<close>, \<^verbatim>\<open>Manifest\<close>, \<^verbatim>\<open>Manager\<close>,
  \<^verbatim>\<open>PolicyManager\<close> and the method \<^verbatim>\<open>ComputeRetentionReasons\<close>) is imported by the two
  command files but is not part of the sources. The records below carry exactly the fields
  the command files read (\<^verbatim>\<open>s.Source.Host\<close>, \<^verbatim>\<open>s.ID\<close>, \<^verbatim>\<open>m.Stats.TotalFileSize\<close>, ...);
  the functions of the package are parameters of the model, bundled in the record
  \<open>snapshot_env\<close>. A \<^verbatim>\<open>time.Time\<close> is an integer instant; an \<^verbatim>\<open>int64\<close> is the \<open>int\<close> it
  stands for, and the one \<^verbatim>\<open>int64\<close> operation of the two files, a subtraction, wraps around
  as it does in Go (\<open>int64_sub\<close>).
\<close>

record SourceInfo =
  Host :: string
  UserName :: string
  Path :: string

record Manifest =
  ID :: string
  Source :: SourceInfo
  StartTime :: int
  IncompleteReason :: string
  RetentionReasons :: "string list"
  HashCacheID :: string
  TotalFileSize :: int

text \<open>
  A Go call either returns (a value, or a non-nil \<^verbatim>\<open>error\<close> with its message) or panics.
  \<open>Inl\<close> is the failure.
\<close>

datatype failure = Error string | Panic string

text \<open>
  What a directory entry (\<^verbatim>\<open>fs.Entry\<close>) shows to the listing: its metadata (the mode and
  the modification time as the listing prints them), its object identifier when it
  implements \<^verbatim>\<open>object.HasObjectID\<close>, and the file and directory counts of its summary when
  it is an \<^verbatim>\<open>fs.Directory\<close> with a non-nil \<^verbatim>\<open>Summary()\<close>.
\<close>

record Entry =
  FileSize :: int
  FileMode :: string
  UserID :: int
  GroupID :: int
  ModTime :: string
  ObjectID :: "string option"
  Summary :: "(int \<times> int) option"

text \<open>
  Everything the commands write: standard output, standard error, the log, one constructor
  for each print statement of the two files, carrying the arguments of its format string.
\<close>

datatype event =
    StderrScanningAll
  | LogLookingFor SourceInfo
  | LogFound nat SourceInfo
  | LogDeleting int
  | LogKeeping int string
  | StderrNothingToDeleteFor SourceInfo
  | StdoutWouldDelete nat nat SourceInfo
  | StderrBanner
  | StderrNothingToDelete
  | StderrDeleting nat
  | StderrWouldBeDeleted nat
  | StdoutSource string SourceInfo
  | WarnNoPolicy SourceInfo
  | StdoutError Manifest string
  | WarnNoObjectID Entry
  | StdoutLine Manifest string string

text \<open>
  The functions of the absent packages, as parameters: the snapshot manager
  (\<^verbatim>\<open>ListSnapshotManifests\<close>, \<^verbatim>\<open>LoadSnapshots\<close>, \<^verbatim>\<open>SnapshotRoot\<close>), the policy manager
  (\<^verbatim>\<open>GetEffectivePolicy\<close>, the policy type is \<open>'pol\<close>), the package functions
  \<^verbatim>\<open>ParseSourceInfo\<close> (already applied to the host and user name), \<^verbatim>\<open>GroupBySource\<close>,
  \<^verbatim>\<open>SortByTime\<close>, the method \<^verbatim>\<open>ComputeRetentionReasons\<close> (it mutates the manifests it is
  given, so it returns them), \<^verbatim>\<open>rep.Manifests.Delete\<close> on the repository \<open>'repo\<close> (with
  whatever it returns), \<^verbatim>\<open>getNestedEntry\<close>, \<^verbatim>\<open>units.BytesStringBase10\<close> and the
  \<^verbatim>\<open>%v\<close> of \<^verbatim>\<open>fmt\<close> on an integer.
\<close>

record ('pol, 'repo) snapshot_env =
  ListSnapshotManifests :: "SourceInfo option \<Rightarrow> string list"
  LoadSnapshots :: "string list \<Rightarrow> string + Manifest list"
  ParseSourceInfo :: "string \<Rightarrow> string + SourceInfo"
  GroupBySource :: "Manifest list \<Rightarrow> Manifest list list"
  SortByTime :: "Manifest list \<Rightarrow> bool \<Rightarrow> Manifest list"
  GetEffectivePolicy :: "SourceInfo \<Rightarrow> string + 'pol"
  ComputeRetentionReasons :: "'pol \<Rightarrow> Manifest list \<Rightarrow> Manifest list"
  ManifestsDelete :: "string \<Rightarrow> 'repo \<Rightarrow> string option \<times> 'repo"
  SnapshotRoot :: "Manifest \<Rightarrow> string + Entry"
  getNestedEntry :: "Entry \<Rightarrow> string list \<Rightarrow> string + Entry"
  BytesStringBase10 :: "int \<Rightarrow> string"
  SprintInt :: "int \<Rightarrow> string"

text \<open>
  The difference of two \<^verbatim>\<open>int64\<close> values: Go computes it modulo \<open>2 ^ 64\<close> and reads the
  result as a signed number.
\<close>

definition int64_sub :: "int \<Rightarrow> int \<Rightarrow> int" where
  "int64_sub a b = sint (word_of_int (a - b) :: 64 word)"

text \<open>\<^verbatim>\<open>strings.Join\<close>.\<close>

fun strings_Join :: "string list \<Rightarrow> string \<Rightarrow> string" where
  "strings_Join [] sep = []"
| "strings_Join [x] sep = x"
| "strings_Join (x # y # ys) sep = x @ sep @ strings_Join (y # ys) sep"

section \<open>The expire command (\<^verbatim>\<open>cli/command_snapshot_expire.go\<close>)\<close>

record expire_flags =
  snapshotExpireHost :: string
  snapshotExpireUser :: string
  snapshotExpireAll :: bool
  snapshotExpirePaths :: "string list"
  snapshotExpireDelete :: string

text \<open>
  The loop of \<^verbatim>\<open>getSnapshotNamesToExpire\<close> over the paths. The second test of \<^verbatim>\<open>err\<close>
  in the loop body follows a call that does not assign it, so it never fires.
\<close>

fun namesForPaths ::
  "('pol, 'repo) snapshot_env \<Rightarrow> string list \<Rightarrow> string list \<Rightarrow> event list \<times> (failure + string list)"
where
  "namesForPaths e [] result = ([], Inr result)"
| "namesForPaths e (p # ps) result =
     (case ParseSourceInfo e p of
        Inl err \<Rightarrow> ([], Inl (Error (''unable to parse '' @ p @ '': '' @ err)))
      | Inr src \<Rightarrow>
          (let matches = ListSnapshotManifests e (Some src);
               rest = namesForPaths e ps (result @ matches)
           in (LogLookingFor src # LogFound (length matches) src # fst rest, snd rest)))"

definition getSnapshotNamesToExpire ::
  "('pol, 'repo) snapshot_env \<Rightarrow> expire_flags \<Rightarrow> event list \<times> (failure + string list)"
where
  "getSnapshotNamesToExpire e f =
     (if \<not> snapshotExpireAll f \<and> length (snapshotExpirePaths f) = 0
      then ([], Inl (Error ''Must specify paths to expire or --all''))
      else if snapshotExpireAll f
      then ([StderrScanningAll], Inr (ListSnapshotManifests e None))
      else namesForPaths e (snapshotExpirePaths f) [])"

text \<open>
  The loop of \<^verbatim>\<open>expireSnapshotsForSingleSource\<close> over the annotated manifests: the log
  lines and \<^verbatim>\<open>toDelete\<close>, in the order of the slice.
\<close>

fun collectToDelete :: "Manifest list \<Rightarrow> event list \<times> string list" where
  "collectToDelete [] = ([], [])"
| "collectToDelete (s # ss) =
     (if length (RetentionReasons s) = 0
      then (LogDeleting (StartTime s) # fst (collectToDelete ss), ID s # snd (collectToDelete ss))
      else (LogKeeping (StartTime s) (strings_Join (RetentionReasons s) '','')
              # fst (collectToDelete ss), snd (collectToDelete ss)))"

text \<open>
  \<^verbatim>\<open>snapshots[0]\<close> panics on an empty slice. \<^verbatim>\<open>ComputeRetentionReasons\<close> works on the
  caller's slice, whose length it cannot change: the loop reads the manifests as it left
  them, the count printed is \<^verbatim>\<open>len(snapshots)\<close>.
\<close>

definition expireSnapshotsForSingleSource ::
  "('pol, 'repo) snapshot_env \<Rightarrow> Manifest list \<Rightarrow> event list \<times> (failure + string list)"
where
  "expireSnapshotsForSingleSource e snapshots =
     (case snapshots of
        [] \<Rightarrow> ([], Inl (Panic ''index out of range''))
      | s0 # _ \<Rightarrow>
          (let src = Source s0 in
           case GetEffectivePolicy e src of
             Inl err \<Rightarrow> ([], Inl (Error err))
           | Inr pol \<Rightarrow>
               (let annotated = ComputeRetentionReasons e pol snapshots;
                    logs = fst (collectToDelete annotated);
                    toDelete = snd (collectToDelete annotated)
                in (logs @
                     [if length toDelete = 0 then StderrNothingToDeleteFor src
                      else StdoutWouldDelete (length toDelete) (length snapshots) src],
                    Inr toDelete))))"

fun expireGroups ::
  "('pol, 'repo) snapshot_env \<Rightarrow> Manifest list list \<Rightarrow> string list \<Rightarrow> event list \<times> (failure + string list)"
where
  "expireGroups e [] toDelete = ([], Inr toDelete)"
| "expireGroups e (snapshotGroup # groups) toDelete =
     (case expireSnapshotsForSingleSource e snapshotGroup of
        (evs, Inl err) \<Rightarrow> (evs, Inl err)
      | (evs, Inr td) \<Rightarrow>
          (let rest = expireGroups e groups (toDelete @ td) in (evs @ fst rest, snd rest)))"

definition expireSnapshots ::
  "('pol, 'repo) snapshot_env \<Rightarrow> Manifest list \<Rightarrow> string list \<Rightarrow> event list \<times> (failure + string list)"
where
  "expireSnapshots e snapshots names = expireGroups e (GroupBySource e snapshots) []"

definition filterHostAndUser :: "expire_flags \<Rightarrow> Manifest list \<Rightarrow> Manifest list" where
  "filterHostAndUser f snapshots =
     (if snapshotExpireHost f = '''' \<and> snapshotExpireUser f = '''' then snapshots
      else filter (\<lambda>s.
             \<not> (snapshotExpireHost f \<noteq> '''' \<and> snapshotExpireHost f \<noteq> Host (Source s)) \<and>
             \<not> (snapshotExpireUser f \<noteq> '''' \<and> snapshotExpireUser f \<noteq> UserName (Source s)))
           snapshots)"

text \<open>
  The loop \<^verbatim>\<open>for _, it := range toDelete { rep.Manifests.Delete(it) }\<close>: each call changes
  the repository; what it returns is not bound to anything.
\<close>

fun deleteAll :: "('pol, 'repo) snapshot_env \<Rightarrow> string list \<Rightarrow> 'repo \<Rightarrow> 'repo" where
  "deleteAll e [] rep = rep"
| "deleteAll e (it # its) rep = deleteAll e its (snd (ManifestsDelete e it rep))"

text \<open>
  \<^verbatim>\<open>runExpireCommand\<close>: what was written, what is returned (\<open>Inr ()\<close> is the nil error) and
  the repository afterwards.
\<close>

definition runExpireCommand ::
  "('pol, 'repo) snapshot_env \<Rightarrow> expire_flags \<Rightarrow> 'repo \<Rightarrow> (event list \<times> (failure + unit)) \<times> 'repo"
where
  "runExpireCommand e f rep =
     (case getSnapshotNamesToExpire e f of
        (ev1, Inl err) \<Rightarrow> ((ev1, Inl err), rep)
      | (ev1, Inr snapshotNames) \<Rightarrow>
          (case LoadSnapshots e snapshotNames of
             Inl err \<Rightarrow> ((ev1, Inl (Error err)), rep)
           | Inr snapshots \<Rightarrow>
               (case expireSnapshots e (filterHostAndUser f snapshots) snapshotNames of
                  (ev2, Inl err) \<Rightarrow> ((ev1 @ ev2, Inl err), rep)
                | (ev2, Inr toDelete) \<Rightarrow>
                    (if length toDelete = 0
                     then ((ev1 @ ev2 @ [StderrBanner, StderrNothingToDelete], Inr ()), rep)
                     else if snapshotExpireDelete f = ''yes''
                     then ((ev1 @ ev2 @ [StderrBanner, StderrDeleting (length toDelete)], Inr ()),
                           deleteAll e toDelete rep)
                     else ((ev1 @ ev2 @ [StderrBanner, StderrWouldBeDeleted (length toDelete)], Inr ()),
                           rep)))))"

section \<open>The list command (\<^verbatim>\<open>outputManifestGroups\<close>, \<^verbatim>\<open>outputManifestFromSingleSource\<close>)\<close>

record list_flags =
  snapshotListIncludeIncomplete :: bool
  snapshotListShowHumanReadable :: bool
  snapshotListShowDelta :: bool
  snapshotListShowItemID :: bool
  snapshotListShowHashCache :: bool
  snapshotListShowRetentionReasons :: bool
  snapshotListShowModTime :: bool
  shapshotListShowOwner :: bool
  maxResultsPerPath :: int

definition deltaBytes :: "('pol, 'repo) snapshot_env \<Rightarrow> int \<Rightarrow> string" where
  "deltaBytes e b = (if b > 0 then ''(+'' @ BytesStringBase10 e b @ '')'' else '''')"

text \<open>The \<^verbatim>\<open>bits\<close> of one line, in the order the loop body appends them.\<close>

definition manifestBits ::
  "('pol, 'repo) snapshot_env \<Rightarrow> list_flags \<Rightarrow> Manifest \<Rightarrow> Entry \<Rightarrow> int \<Rightarrow> string list"
where
  "manifestBits e f m ent lastTotalFileSize =
     (if IncompleteReason m \<noteq> '''' then [''incomplete:'' @ IncompleteReason m] else []) @
     (if snapshotListShowHumanReadable f then [BytesStringBase10 e (FileSize ent)]
      else [SprintInt e (FileSize ent)]) @
     [FileMode ent] @
     (if shapshotListShowOwner f
      then [''uid:'' @ SprintInt e (UserID ent), ''gid:'' @ SprintInt e (GroupID ent)] else []) @
     (if snapshotListShowModTime f then [''modified:'' @ ModTime ent] else []) @
     (if snapshotListShowItemID f then [''manifest:'' @ ID m] else []) @
     (if snapshotListShowHashCache f then [''hashcache:'' @ HashCacheID m] else []) @
     (if snapshotListShowDelta f then [deltaBytes e (int64_sub (FileSize ent) lastTotalFileSize)] else []) @
     (case Summary ent of
        Some (files, dirs) \<Rightarrow> [''files:'' @ SprintInt e files, ''dirs:'' @ SprintInt e dirs]
      | None \<Rightarrow> []) @
     (if snapshotListShowRetentionReasons f \<and> length (RetentionReasons m) > 0
      then [''retention:'' @ strings_Join (RetentionReasons m) '',''] else [])"

text \<open>
  The loop of \<^verbatim>\<open>outputManifestFromSingleSource\<close>, with \<^verbatim>\<open>lastTotalFileSize\<close> as its state
  (\<^verbatim>\<open>count\<close> is incremented and never read). Each \<^verbatim>\<open>continue\<close> is a branch that goes on
  with the state unchanged; the tests come in the order of the source: the root, the nested
  entry, the object identifier, and only then \<^verbatim>\<open>IncompleteReason\<close>.
\<close>

fun outputManifests ::
  "('pol, 'repo) snapshot_env \<Rightarrow> list_flags \<Rightarrow> string list \<Rightarrow> Manifest list \<Rightarrow> int \<Rightarrow> event list"
where
  "outputManifests e f parts [] lastTotalFileSize = []"
| "outputManifests e f parts (m # ms) lastTotalFileSize =
     (case SnapshotRoot e m of
        Inl err \<Rightarrow> StdoutError m err # outputManifests e f parts ms lastTotalFileSize
      | Inr root \<Rightarrow>
          (case getNestedEntry e root parts of
             Inl err \<Rightarrow> StdoutError m err # outputManifests e f parts ms lastTotalFileSize
           | Inr ent \<Rightarrow>
               (case ObjectID ent of
                  None \<Rightarrow> WarnNoObjectID ent # outputManifests e f parts ms lastTotalFileSize
                | Some oid \<Rightarrow>
                    (if IncompleteReason m \<noteq> '''' \<and> \<not> snapshotListIncludeIncomplete f
                     then outputManifests e f parts ms lastTotalFileSize
                     else StdoutLine m oid
                            (strings_Join (manifestBits e f m ent lastTotalFileSize) '' '')
                          # outputManifests e f parts ms
                              (if IncompleteReason m = '''' then TotalFileSize m
                               else lastTotalFileSize)))))"

text \<open>
  \<^verbatim>\<open>manifests[len(manifests)-*maxResultsPerPath:]\<close> panics when the flag is negative (the
  lower bound is then beyond the length).
\<close>

definition outputManifestFromSingleSource ::
  "('pol, 'repo) snapshot_env \<Rightarrow> list_flags \<Rightarrow> Manifest list \<Rightarrow> string list \<Rightarrow>
     event list \<times> (failure + unit)"
where
  "outputManifestFromSingleSource e f manifests parts =
     (let sorted = SortByTime e manifests False in
      if int (length sorted) > maxResultsPerPath f
      then (if maxResultsPerPath f < 0 then ([], Inl (Panic ''slice bounds out of range''))
            else (outputManifests e f parts
                    (drop (length sorted - nat (maxResultsPerPath f)) sorted) 0, Inr ()))
      else (outputManifests e f parts sorted 0, Inr ()))"

text \<open>
  The loop of \<^verbatim>\<open>outputManifestGroups\<close>, with \<^verbatim>\<open>separator\<close> as its state. When the policy
  lookup fails the group is passed on as it is; otherwise as \<^verbatim>\<open>ComputeRetentionReasons\<close>
  left it.
\<close>

fun outputGroups ::
  "('pol, 'repo) snapshot_env \<Rightarrow> list_flags \<Rightarrow> string list \<Rightarrow> Manifest list list \<Rightarrow> string \<Rightarrow>
     event list \<times> (failure + unit)"
where
  "outputGroups e f parts [] separator = ([], Inr ())"
| "outputGroups e f parts (snapshotGroup # groups) separator =
     (case snapshotGroup of
        [] \<Rightarrow> ([], Inl (Panic ''index out of range''))
      | s0 # _ \<Rightarrow>
          (let src = Source s0;
               warned = (case GetEffectivePolicy e src of
                           Inl err \<Rightarrow> [WarnNoPolicy src] | Inr pol \<Rightarrow> []);
               annotated = (case GetEffectivePolicy e src of
                              Inl err \<Rightarrow> snapshotGroup
                            | Inr pol \<Rightarrow> ComputeRetentionReasons e pol snapshotGroup)
           in case outputManifestFromSingleSource e f annotated parts of
                (evs, Inl err) \<Rightarrow> (StdoutSource separator src # warned @ evs, Inl err)
              | (evs, Inr u) \<Rightarrow>
                  (let rest = outputGroups e f parts groups [CHR 0x0A]
                   in (StdoutSource separator src # warned @ evs @ fst rest, snd rest))))"

definition outputManifestGroups ::
  "('pol, 'repo) snapshot_env \<Rightarrow> list_flags \<Rightarrow> Manifest list \<Rightarrow> string list \<Rightarrow>
     event list \<times> (failure + unit)"
where
  "outputManifestGroups e f manifests relPathParts =
     outputGroups e f relPathParts (GroupBySource e manifests) ''''"

section \<open>The block cache\<close>

text \<open>
  \<^verbatim>\<open>block/block_cache_test.go\<close> is the only file of the cache in the sources: the cache
  itself (\<^verbatim>\<open>newBlockCacheWithCacheStorage\<close>, \<^verbatim>\<open>getContentBlock\<close>, the sweeper) and the
  storage it reads (\<^verbatim>\<open>storagetesting.NewMapStorage\<close>) are not. The cache is therefore
  modelled from the specification, and the tables of the test are kept beside it.
\<close>

type_synonym byte = "8 word"

text \<open>
  Modelled from the spec: the error taxonomy of the cache, \<^verbatim>\<open>NotFound\<close>, \<^verbatim>\<open>InvalidOffset\<close>
  and the opaque \<^verbatim>\<open>StorageError\<close> of either storage tier.
\<close>

datatype cache_error = NotFound | InvalidOffset | StorageError

text \<open>
  Modelled from the spec: the underlying storage as a read sees it (its implementations
  are missing). An identifier is absent (\<^verbatim>\<open>NotFound\<close>), or holds a block that is read, or
  holds one whose read fails (\<^verbatim>\<open>StorageError\<close>).
\<close>

datatype stored = Readable "byte list" | Unreadable

type_synonym underlying_storage = "string \<rightharpoonup> stored"

text \<open>
  Modelled from the spec: the cache storage, a map from rewritten keys to payloads, as the
  in-memory storage of the tests. The spec gives a read of it two outcomes, the payload and
  \<^verbatim>\<open>NotFound\<close> (a miss); a write to it may fail, which \<open>get_range\<close> takes as a parameter.
\<close>

type_synonym storage = "string \<rightharpoonup> byte list"

text \<open>
  Modelled from the spec: \<^verbatim>\<open>get(id, offset, length) -> bytes | NotFound | error\<close> of the
  storage interface, \<^verbatim>\<open>-1\<close> being the length that means to the end of the block. A range
  outside the block, and a negative length other than \<^verbatim>\<open>-1\<close>, is an error of the storage.
\<close>

definition storage_get ::
  "underlying_storage \<Rightarrow> string \<Rightarrow> int \<Rightarrow> int \<Rightarrow> cache_error + byte list"
where
  "storage_get st ident offset len =
     (case st ident of
        None \<Rightarrow> Inl NotFound
      | Some Unreadable \<Rightarrow> Inl StorageError
      | Some (Readable d) \<Rightarrow>
          (if offset < 0 \<or> int (length d) < offset \<or> len < - 1
              \<or> (0 \<le> len \<and> int (length d) < offset + len)
           then Inl StorageError
           else if len = - 1 then Inr (drop (nat offset) d)
           else Inr (take (nat len) (drop (nat offset) d))))"

text \<open>
  Modelled from the spec: the range check and the extraction of \<^verbatim>\<open>get_range\<close>, whose code
  is missing. The check is the spec's: \<^verbatim>\<open>offset < 0\<close>, or \<^verbatim>\<open>offset > full_length\<close>, or
  \<^verbatim>\<open>length >= 0 && offset + length > full_length\<close> is \<^verbatim>\<open>InvalidOffset\<close>; otherwise the result
  is \<^verbatim>\<open>payload[offset : offset+length]\<close>, or \<^verbatim>\<open>payload[offset:]\<close> for the length \<^verbatim>\<open>-1\<close>. The
  spec names no other negative length; the check lets them all through, and the model reads
  them all as \<^verbatim>\<open>-1\<close>.
\<close>

definition payload_range :: "byte list \<Rightarrow> int \<Rightarrow> int \<Rightarrow> cache_error + byte list" where
  "payload_range payload offset len =
     (if offset < 0 \<or> (len \<ge> 0 \<and> offset + len > int (length payload))
         \<or> offset > int (length payload)
      then Inl InvalidOffset
      else if len < 0 then Inr (drop (nat offset) payload)
      else Inr (take (nat len) (drop (nat offset) payload)))"

text \<open>
  Modelled from the spec: the marker character (the code that names it is missing); the
  spec observes \<^verbatim>\<open>x\<close>.
\<close>

definition marker :: char where
  "marker = CHR ''x''"

text \<open>
  Modelled from the spec: the rewritten key, \<^verbatim>\<open>cache_key\<close> with the marker character
  appended (the function that computes the key in the code is missing).
\<close>

definition rewritten_key :: "string \<Rightarrow> string" where
  "rewritten_key cache_key = cache_key @ [marker]"

text \<open>
  Modelled from the spec: \<^verbatim>\<open>get_range\<close> (\<^verbatim>\<open>getContentBlock\<close> in the test; its code is
  missing), in the order of the spec: the argument check (a negative offset fails before any
  storage is touched); the lookup under the rewritten key, a hit returning the range of the
  cached payload; on a miss the full block \<^verbatim>\<open>underlying.get(id, 0, -1)\<close>, whose \<^verbatim>\<open>NotFound\<close>
  and whose \<^verbatim>\<open>StorageError\<close> are surfaced and leave the cache as it was; then the bound check
  that had to wait for the payload; and on success the write of the full payload under the
  rewritten key, and the requested range. The write is best-effort: when it fails
  (\<open>write_fails\<close> of the rewritten key; the failure is logged, which the result does not
  show) the cache storage stays as it was and the read succeeds all the same.
  The key rewriting is the parameter \<open>rw\<close>. A range that fails the deferred check writes
  nothing: the test expects no entry for the key of its case \<^verbatim>\<open>{"xf0f0f6", "block-1", 11, 10}\<close>.
  The result is what the caller gets and the cache storage afterwards.
\<close>

definition get_range ::
  "(string \<Rightarrow> string) \<Rightarrow> (string \<Rightarrow> bool) \<Rightarrow> underlying_storage \<Rightarrow> storage \<Rightarrow>
     string \<Rightarrow> string \<Rightarrow> int \<Rightarrow> int \<Rightarrow> (cache_error + byte list) \<times> storage"
where
  "get_range rw write_fails underlying cache cache_key physical_block_id offset len =
     (if offset < 0 then (Inl InvalidOffset, cache)
      else case cache (rw cache_key) of
        Some payload \<Rightarrow> (payload_range payload offset len, cache)
      | None \<Rightarrow>
          (case storage_get underlying physical_block_id 0 (- 1) of
             Inl err \<Rightarrow> (Inl err, cache)
           | Inr payload \<Rightarrow>
               (case payload_range payload offset len of
                  Inl err \<Rightarrow> (Inl err, cache)
                | Inr bytes \<Rightarrow>
                    (if write_fails (rw cache_key) then (Inr bytes, cache)
                     else (Inr bytes, cache(rw cache_key \<mapsto> payload))))))"

text \<open>A sequence of calls, each on the cache storage the one before left.\<close>

fun get_ranges ::
  "(string \<Rightarrow> string) \<Rightarrow> (string \<Rightarrow> bool) \<Rightarrow> underlying_storage \<Rightarrow> storage \<Rightarrow>
     (string \<times> string \<times> int \<times> int) list \<Rightarrow> (cache_error + byte list) list \<times> storage"
where
  "get_ranges rw write_fails underlying cache [] = ([], cache)"
| "get_ranges rw write_fails underlying cache ((k, b, off, len) # calls) =
     (case get_range rw write_fails underlying cache k b off len of
        (r, cache') \<Rightarrow>
          (case get_ranges rw write_fails underlying cache' calls of
             (rs, cache'') \<Rightarrow> (r # rs, cache'')))"

subsection \<open>The tables of \<^verbatim>\<open>block_cache_test.go\<close>\<close>

text \<open>\<^verbatim>\<open>newUnderlyingStorageForBlockCacheTesting\<close>, with its block of ten bytes.\<close>

definition block_1 :: "byte list" where
  "block_1 = [1, 2, 3, 4, 5, 6, 7, 8, 9, 10]"

definition newUnderlyingStorageForBlockCacheTesting :: underlying_storage where
  "newUnderlyingStorageForBlockCacheTesting =
     [''block-1'' \<mapsto> Readable block_1,
      ''block-4k'' \<mapsto> Readable (concat (replicate 1000 [1, 2, 3, 4]))]"

text \<open>
  The cases of \<^verbatim>\<open>verifyBlockCache\<close>: cache key, block, offset, length, and what the test
  expects (its error \<^verbatim>\<open>"invalid offset"\<close> is \<open>InvalidOffset\<close>).
\<close>

definition verifyBlockCache_cases ::
  "((string \<times> string \<times> int \<times> int) \<times> (cache_error + byte list)) list"
where
  "verifyBlockCache_cases =
     [((''xf0f0f1'', ''block-1'', 1, 5), Inr [2, 3, 4, 5, 6]),
      ((''xf0f0f2'', ''block-1'', 0, - 1), Inr [1, 2, 3, 4, 5, 6, 7, 8, 9, 10]),
      ((''xf0f0f1'', ''block-1'', 1, 5), Inr [2, 3, 4, 5, 6]),
      ((''xf0f0f2'', ''block-1'', 0, - 1), Inr [1, 2, 3, 4, 5, 6, 7, 8, 9, 10]),
      ((''xf0f0f3'', ''no-such-block'', 0, - 1), Inl NotFound),
      ((''xf0f0f4'', ''no-such-block'', 10, 5), Inl NotFound),
      ((''f0f0f5'', ''block-1'', 7, 3), Inr [8, 9, 10]),
      ((''xf0f0f6'', ''block-1'', 11, 10), Inl InvalidOffset),
      ((''xf0f0f6'', ''block-1'', - 1, 5), Inl InvalidOffset)]"

text \<open>The listing of the cache storage that \<^verbatim>\<open>verifyBlockCache\<close> expects after these calls.\<close>

definition verifyBlockCache_expectedBlocks :: "string list" where
  "verifyBlockCache_expectedBlocks = [''f0f0f1x'', ''f0f0f2x'', ''f0f0f5'']"

section \<open>Vocabulary of the statements\<close>

text \<open>
  The spec's deletion candidates: the identifiers of the manifests lacking any reason, in
  the order of the manifests.
\<close>

definition deletion_candidates :: "Manifest list \<Rightarrow> string list" where
  "deletion_candidates ms = map ID (filter (\<lambda>m. RetentionReasons m = []) ms)"

text \<open>Whether the effective policy of a group's source (the source of its first manifest) is found.\<close>

definition policy_found :: "('pol, 'repo) snapshot_env \<Rightarrow> Manifest list \<Rightarrow> bool" where
  "policy_found e g =
     (case g of [] \<Rightarrow> False
      | s0 # _ \<Rightarrow> (case GetEffectivePolicy e (Source s0) of Inl err \<Rightarrow> False | Inr pol \<Rightarrow> True))"

text \<open>A group as \<^verbatim>\<open>ComputeRetentionReasons\<close> leaves it under the effective policy of its source.\<close>

definition retention_annotated :: "('pol, 'repo) snapshot_env \<Rightarrow> Manifest list \<Rightarrow> Manifest list" where
  "retention_annotated e g =
     (case g of [] \<Rightarrow> []
      | s0 # _ \<Rightarrow> (case GetEffectivePolicy e (Source s0) of
                     Inl err \<Rightarrow> g | Inr pol \<Rightarrow> ComputeRetentionReasons e pol g))"


section \<open>Fixtures for the concrete instances\<close>

definition src_a :: SourceInfo where
  "src_a = \<lparr>Host = ''h1'', UserName = ''alice'', Path = ''/data''\<rparr>"

definition src_b :: SourceInfo where
  "src_b = \<lparr>Host = ''h2'', UserName = ''bob'', Path = ''/home''\<rparr>"

definition mk_manifest :: "string \<Rightarrow> SourceInfo \<Rightarrow> int \<Rightarrow> string \<Rightarrow> Manifest" where
  "mk_manifest i s t inc =
     \<lparr>ID = i, Source = s, StartTime = t, IncompleteReason = inc, RetentionReasons = [],
      HashCacheID = '''', TotalFileSize = 100\<rparr>"

text \<open>
  Two complete snapshots of \<open>src_a\<close>, an incomplete one of \<open>src_b\<close> whose root cannot be
  read, an incomplete one of \<open>src_a\<close>, and a complete one of \<open>src_b\<close>.
\<close>

definition man1 :: Manifest where
  "man1 = mk_manifest ''m1'' src_a 10 ''''"

definition man2 :: Manifest where
  "man2 = mk_manifest ''m2'' src_a 20 ''''"

definition man3 :: Manifest where
  "man3 = mk_manifest ''m3'' src_b 30 ''checkpoint''"

definition man4 :: Manifest where
  "man4 = mk_manifest ''m4'' src_a 40 ''cancelled''"

definition man5 :: Manifest where
  "man5 = mk_manifest ''m5'' src_b 50 ''''"

definition dir_entry :: Entry where
  "dir_entry = \<lparr>FileSize = 100, FileMode = ''drwxr-xr-x'', UserID = 0, GroupID = 0,
                ModTime = ''2018-01-01'', ObjectID = Some ''obj'', Summary = None\<rparr>"

text \<open>
  A retention policy that keeps the newest snapshot only (policies are numbers here: the
  count to keep), every manifest being given the reason \<^verbatim>\<open>latest-1\<close> or none.
\<close>

definition keep_newest :: "nat \<Rightarrow> Manifest list \<Rightarrow> Manifest list" where
  "keep_newest n ms =
     map (\<lambda>m. m\<lparr>RetentionReasons :=
                  (if n > 0 \<and> (\<forall>m' \<in> set ms. StartTime m' \<le> StartTime m)
                   then [''latest-1''] else [])\<rparr>) ms"

text \<open>
  An environment over a repository that is the list of the identifiers deleted so far; the
  policy of \<open>src_b\<close> cannot be determined, the deletion of \<^verbatim>\<open>m1\<close> reports a failure, and
  no root has a nested entry.
\<close>

definition demo_env :: "(nat, string list) snapshot_env" where
  "demo_env =
     \<lparr>ListSnapshotManifests =
        (\<lambda>s. case s of None \<Rightarrow> [''m1'', ''m2'']
              | Some x \<Rightarrow> if x = src_b then [''m5''] else []),
      LoadSnapshots = (\<lambda>ns. if ns = [''m1'', ''m2''] then Inr [man1, man2]
                             else if ns = [''m5''] then Inr [man5] else Inl ''cannot load''),
      ParseSourceInfo = (\<lambda>p. if p = ''/home'' then Inr src_b else Inl ''bad path''),
      GroupBySource = (\<lambda>ms. if ms = [] then [] else [ms]),
      SortByTime = (\<lambda>ms r. ms),
      GetEffectivePolicy = (\<lambda>s. if s = src_a then Inr 1 else Inl ''no policy''),
      ComputeRetentionReasons = keep_newest,
      ManifestsDelete = (\<lambda>i r. (if i = ''m1'' then Some ''delete failed'' else None, r @ [i])),
      SnapshotRoot = (\<lambda>m. if ID m = ''m3'' then Inl ''no root'' else Inr dir_entry),
      getNestedEntry = (\<lambda>ent ps. if ps = [] then Inr ent else Inl ''no such entry''),
      BytesStringBase10 = (\<lambda>n. ''100 B''),
      SprintInt = (\<lambda>n. ''100'')\<rparr>"

text \<open>\<^verbatim>\<open>snapshot expire --all --delete=yes\<close> and \<^verbatim>\<open>snapshot expire /home --delete=yes\<close>.\<close>

definition demo_flags :: expire_flags where
  "demo_flags = \<lparr>snapshotExpireHost = '''', snapshotExpireUser = '''', snapshotExpireAll = True,
                 snapshotExpirePaths = [], snapshotExpireDelete = ''yes''\<rparr>"

definition demo_path_flags :: expire_flags where
  "demo_path_flags = \<lparr>snapshotExpireHost = '''', snapshotExpireUser = '''',
                      snapshotExpireAll = False, snapshotExpirePaths = [''/home''],
                      snapshotExpireDelete = ''yes''\<rparr>"

text \<open>\<^verbatim>\<open>snapshot list\<close> with its defaults.\<close>

definition demo_list_flags :: list_flags where
  "demo_list_flags =
     \<lparr>snapshotListIncludeIncomplete = False, snapshotListShowHumanReadable = True,
      snapshotListShowDelta = False, snapshotListShowItemID = False,
      snapshotListShowHashCache = False, snapshotListShowRetentionReasons = True,
      snapshotListShowModTime = False, shapshotListShowOwner = False,
      maxResultsPerPath = 1000\<rparr>"


text \<open>No write to the cache storage fails; every write to it fails.\<close>

definition writes_succeed :: "string \<Rightarrow> bool" where
  "writes_succeed key = False"


text \<open>
  An environment with two sources: four snapshots are loaded and grouped by source, the
  policy of \<open>src_a\<close> keeps the newest snapshot and the policy of \<open>src_b\<close> keeps none.
\<close>

definition two_source_env :: "(nat, string list) snapshot_env" where
  "two_source_env =
     demo_env\<lparr>ListSnapshotManifests := (\<lambda>s. [''m1'', ''m2'', ''m5'', ''m4'']),
              LoadSnapshots := (\<lambda>ns. Inr [man1, man2, man5, man4]),
              GroupBySource := (\<lambda>ms. [filter (\<lambda>m. Source m = src_a) ms,
                                       filter (\<lambda>m. Source m = src_b) ms]),
              GetEffectivePolicy := (\<lambda>s. if s = src_a then Inr 1 else Inr 0)\<rparr>"

text \<open>\<^verbatim>\<open>snapshot list --incomplete\<close>.\<close>

definition demo_incomplete_flags :: list_flags where
  "demo_incomplete_flags = demo_list_flags\<lparr>snapshotListIncludeIncomplete := True\<rparr>"

section \<open>The expire command: lemmas\<close>

lemma collectToDelete_candidates: "snd (collectToDelete ms) = deletion_candidates ms"
  by (induction ms) (simp_all add: deletion_candidates_def)

lemma single_source_candidates:
  assumes "policy_found e g"
  shows "snd (expireSnapshotsForSingleSource e g) = Inr (deletion_candidates (retention_annotated e g))"
  using assms
  by (auto simp: expireSnapshotsForSingleSource_def policy_found_def retention_annotated_def
        Let_def collectToDelete_candidates split: list.splits sum.splits)

lemma expireGroups_candidates:
  assumes "\<forall>g \<in> set groups. policy_found e g"
  shows "snd (expireGroups e groups acc) =
           Inr (acc @ concat (map (\<lambda>g. deletion_candidates (retention_annotated e g)) groups))"
  using assms
proof (induction groups arbitrary: acc)
  case Nil
  then show ?case by simp
next
  case (Cons g groups)
  from Cons.prems have g: "policy_found e g" and rest: "\<forall>g \<in> set groups. policy_found e g"
    by simp_all
  obtain evs where one:
    "expireSnapshotsForSingleSource e g = (evs, Inr (deletion_candidates (retention_annotated e g)))"
    using single_source_candidates [OF g] by (cases "expireSnapshotsForSingleSource e g") simp
  show ?case
    using Cons.IH [OF rest] by (simp add: one Let_def)
qed

lemma candidate_iff_no_reasons:
  assumes "distinct (map ID ms)" and "m \<in> set ms"
  shows "(ID m \<in> set (deletion_candidates ms)) = (RetentionReasons m = [])"
proof
  assume "ID m \<in> set (deletion_candidates ms)"
  then obtain m' where m': "m' \<in> set ms" "RetentionReasons m' = []" "ID m' = ID m"
    by (auto simp: deletion_candidates_def)
  from assms m' have "m' = m"
    by (meson distinct_map inj_onD)
  with m' show "RetentionReasons m = []" by simp
next
  assume "RetentionReasons m = []"
  with assms(2) show "ID m \<in> set (deletion_candidates ms)"
    by (auto simp: deletion_candidates_def)
qed

lemma deleteAll_fold:
  "deleteAll e idents rep = fold (\<lambda>ident r. snd (ManifestsDelete e ident r)) idents rep"
  by (induction idents arbitrary: rep) simp_all

lemma runExpireCommand_after_candidates:
  assumes "getSnapshotNamesToExpire e f = (ev1, Inr names)"
    and "LoadSnapshots e names = Inr loaded"
    and "expireSnapshots e (filterHostAndUser f loaded) names = (ev2, Inr toDelete)"
  shows "runExpireCommand e f rep =
           ((ev1 @ ev2 @
               [StderrBanner,
                if toDelete = [] then StderrNothingToDelete
                else if snapshotExpireDelete f = ''yes'' then StderrDeleting (length toDelete)
                else StderrWouldBeDeleted (length toDelete)],
             Inr ()),
            if snapshotExpireDelete f = ''yes'' then deleteAll e toDelete rep else rep)"
  using assms by (simp add: runExpireCommand_def)

lemma demo_names:
  "getSnapshotNamesToExpire demo_env demo_flags = ([StderrScanningAll], Inr [''m1'', ''m2''])"
  by (simp add: getSnapshotNamesToExpire_def demo_env_def demo_flags_def)

lemma demo_load: "LoadSnapshots demo_env [''m1'', ''m2''] = Inr [man1, man2]"
  by (simp add: demo_env_def)

lemma demo_groups:
  "GroupBySource demo_env (filterHostAndUser demo_flags [man1, man2]) = [[man1, man2]]"
  by (simp add: demo_env_def demo_flags_def filterHostAndUser_def)

lemma demo_annotated:
  "retention_annotated demo_env [man1, man2] =
     [man1, man2\<lparr>RetentionReasons := [''latest-1'']\<rparr>]"
  by (simp add: retention_annotated_def demo_env_def keep_newest_def man1_def man2_def
        mk_manifest_def src_a_def)

lemma demo_found: "policy_found demo_env [man1, man2]"
  by (simp add: policy_found_def demo_env_def man1_def mk_manifest_def)

section \<open>The claims about the expire command\<close>

text \<open>
  C2. After \<^verbatim>\<open>ComputeRetentionReasons\<close> has run on the manifests of one source (the
  identifiers of the manifests being distinct, as those of a set of manifests are), the list
  \<^verbatim>\<open>expireSnapshotsForSingleSource\<close> returns holds the identifier of a manifest exactly when
  the manifest has no retention reason. The expire command collects these lists group after
  group; with \<^verbatim>\<open>--delete=yes\<close> the repository it leaves is the one that results from
  \<^verbatim>\<open>Delete\<close> applied to each of these identifiers in turn and to nothing else, and otherwise
  it leaves the repository as it was and reports their number.
\<close>

theorem C2_candidates_iff_no_reasons:
  assumes names: "getSnapshotNamesToExpire e f = (ev1, Inr names)"
    and load: "LoadSnapshots e names = Inr loaded"
    and groups: "groups = GroupBySource e (filterHostAndUser f loaded)"
    and found: "\<forall>g \<in> set groups. policy_found e g"
    and ids: "\<forall>g \<in> set groups. distinct (map ID (retention_annotated e g))"
    and cands: "cands = concat (map (\<lambda>g. deletion_candidates (retention_annotated e g)) groups)"
  shows "(\<forall>g \<in> set groups.
            snd (expireSnapshotsForSingleSource e g) = Inr (deletion_candidates (retention_annotated e g)) \<and>
            (\<forall>m \<in> set (retention_annotated e g).
               (ID m \<in> set (deletion_candidates (retention_annotated e g))) = (RetentionReasons m = []))) \<and>
         snd (expireSnapshots e (filterHostAndUser f loaded) names) = Inr cands \<and>
         snd (runExpireCommand e f rep) =
           (if snapshotExpireDelete f = ''yes''
            then fold (\<lambda>ident r. snd (ManifestsDelete e ident r)) cands rep else rep) \<and>
         snd (fst (runExpireCommand e f rep)) = Inr () \<and>
         last (fst (fst (runExpireCommand e f rep))) =
           (if cands = [] then StderrNothingToDelete
            else if snapshotExpireDelete f = ''yes'' then StderrDeleting (length cands)
            else StderrWouldBeDeleted (length cands))"
proof -
  have each: "\<forall>g \<in> set groups.
      snd (expireSnapshotsForSingleSource e g) = Inr (deletion_candidates (retention_annotated e g)) \<and>
      (\<forall>m \<in> set (retention_annotated e g).
         (ID m \<in> set (deletion_candidates (retention_annotated e g))) = (RetentionReasons m = []))"
    using found ids by (auto simp: single_source_candidates candidate_iff_no_reasons)
  have all: "snd (expireSnapshots e (filterHostAndUser f loaded) names) = Inr cands"
    using expireGroups_candidates [OF found, of "[]"]
    by (simp add: expireSnapshots_def groups cands)
  then obtain ev2 where ev2: "expireSnapshots e (filterHostAndUser f loaded) names = (ev2, Inr cands)"
    by (cases "expireSnapshots e (filterHostAndUser f loaded) names") simp
  note run = runExpireCommand_after_candidates [OF names load ev2, of rep]
  have repo: "snd (runExpireCommand e f rep) =
      (if snapshotExpireDelete f = ''yes''
       then fold (\<lambda>ident r. snd (ManifestsDelete e ident r)) cands rep else rep)"
    by (simp add: run deleteAll_fold)
  have nil: "snd (fst (runExpireCommand e f rep)) = Inr ()"
    by (simp add: run)
  have msg: "last (fst (fst (runExpireCommand e f rep))) =
      (if cands = [] then StderrNothingToDelete
       else if snapshotExpireDelete f = ''yes'' then StderrDeleting (length cands)
       else StderrWouldBeDeleted (length cands))"
    by (simp add: run)
  from each all repo nil msg show ?thesis by blast
qed

lemma two_source_names:
  "getSnapshotNamesToExpire two_source_env demo_flags =
     ([StderrScanningAll], Inr [''m1'', ''m2'', ''m5'', ''m4''])"
  by (simp add: getSnapshotNamesToExpire_def two_source_env_def demo_flags_def)

lemma two_source_load:
  "LoadSnapshots two_source_env [''m1'', ''m2'', ''m5'', ''m4''] = Inr [man1, man2, man5, man4]"
  by (simp add: two_source_env_def)

lemma two_source_groups:
  "GroupBySource two_source_env (filterHostAndUser demo_flags [man1, man2, man5, man4]) =
     [[man1, man2, man4], [man5]]"
  by (simp add: two_source_env_def demo_flags_def filterHostAndUser_def man1_def man2_def
        man4_def man5_def mk_manifest_def src_a_def src_b_def)

lemma two_source_annotated:
  "retention_annotated two_source_env [man1, man2, man4] =
     [man1, man2, man4\<lparr>RetentionReasons := [''latest-1'']\<rparr>]"
  "retention_annotated two_source_env [man5] = [man5]"
  by (simp_all add: retention_annotated_def two_source_env_def demo_env_def keep_newest_def
        man1_def man2_def man4_def man5_def mk_manifest_def src_a_def src_b_def)

lemma two_source_found:
  "policy_found two_source_env [man1, man2, man4]" "policy_found two_source_env [man5]"
  by (simp_all add: policy_found_def two_source_env_def)

theorem C2_candidates_iff_no_reasons_witness:
  "snd (expireSnapshotsForSingleSource two_source_env [man1, man2, man4]) = Inr [''m1'', ''m2''] \<and>
   snd (expireSnapshotsForSingleSource two_source_env [man5]) = Inr [''m5''] \<and>
   snd (expireSnapshots two_source_env (filterHostAndUser demo_flags [man1, man2, man5, man4])
          [''m1'', ''m2'', ''m5'', ''m4'']) = Inr [''m1'', ''m2'', ''m5''] \<and>
   snd (runExpireCommand two_source_env demo_flags []) = [''m1'', ''m2'', ''m5''] \<and>
   snd (fst (runExpireCommand two_source_env demo_flags [])) = Inr () \<and>
   last (fst (fst (runExpireCommand two_source_env demo_flags []))) = StderrDeleting 3"
proof -
  have found: "\<forall>g \<in> set [[man1, man2, man4], [man5]]. policy_found two_source_env g"
    by (simp add: two_source_found)
  have ids: "\<forall>g \<in> set [[man1, man2, man4], [man5]].
      distinct (map ID (retention_annotated two_source_env g))"
    by (simp add: two_source_annotated, simp add: man1_def man2_def man4_def man5_def mk_manifest_def)
  have c1: "deletion_candidates (retention_annotated two_source_env [man1, man2, man4]) = [''m1'', ''m2'']"
    by (simp add: two_source_annotated, simp add: deletion_candidates_def man1_def man2_def
          man4_def mk_manifest_def)
  have c2: "deletion_candidates (retention_annotated two_source_env [man5]) = [''m5'']"
    by (simp add: two_source_annotated, simp add: deletion_candidates_def man5_def mk_manifest_def)
  have cands: "[''m1'', ''m2'', ''m5''] =
      concat (map (\<lambda>g. deletion_candidates (retention_annotated two_source_env g))
        [[man1, man2, man4], [man5]])"
    by (simp add: c1 c2)
  note inst = C2_candidates_iff_no_reasons [OF two_source_names two_source_load
      two_source_groups [symmetric] found ids cands, of "[]"]
  have del: "fold (\<lambda>ident r. snd (ManifestsDelete two_source_env ident r)) [''m1'', ''m2'', ''m5''] [] =
      [''m1'', ''m2'', ''m5'']"
    by (simp add: two_source_env_def demo_env_def)
  have yes: "snapshotExpireDelete demo_flags = ''yes''"
    by (simp add: demo_flags_def)
  from inst have a: "snd (expireSnapshotsForSingleSource two_source_env [man1, man2, man4]) =
      Inr [''m1'', ''m2'']"
    and b: "snd (expireSnapshotsForSingleSource two_source_env [man5]) = Inr [''m5'']"
    by (simp_all add: c1 c2)
  from inst have c: "snd (expireSnapshots two_source_env
      (filterHostAndUser demo_flags [man1, man2, man5, man4]) [''m1'', ''m2'', ''m5'', ''m4'']) =
      Inr [''m1'', ''m2'', ''m5'']"
    by simp
  from inst have d: "snd (runExpireCommand two_source_env demo_flags []) = [''m1'', ''m2'', ''m5'']"
    using del by (simp add: yes)
  from inst have n: "snd (fst (runExpireCommand two_source_env demo_flags [])) = Inr ()"
    by simp
  from inst have l: "last (fst (fst (runExpireCommand two_source_env demo_flags []))) = StderrDeleting 3"
    by (simp add: yes)
  from a b c d n l show ?thesis
    by simp
qed

text \<open>
  C9. With \<^verbatim>\<open>--delete=yes\<close>, once the candidates are computed, the command calls
  \<^verbatim>\<open>rep.Manifests.Delete\<close> on every candidate in turn, whatever the calls before returned,
  and returns nil; what it writes and what it returns do not depend on \<^verbatim>\<open>Delete\<close> at all,
  so a failed deletion is neither logged nor surfaced.
\<close>

theorem C9_delete_results_discarded:
  assumes names: "getSnapshotNamesToExpire e f = (ev1, Inr names)"
    and load: "LoadSnapshots e names = Inr loaded"
    and cands: "expireSnapshots e (filterHostAndUser f loaded) names = (ev2, Inr toDelete)"
    and yes: "snapshotExpireDelete f = ''yes''"
  shows "snd (fst (runExpireCommand e f rep)) = Inr () \<and>
         snd (runExpireCommand e f rep) = fold (\<lambda>it r. snd (ManifestsDelete e it r)) toDelete rep \<and>
         fst (runExpireCommand (e\<lparr>ManifestsDelete := d\<rparr>) f rep) = fst (runExpireCommand e f rep) \<and>
         fst (fst (runExpireCommand e f rep)) =
           ev1 @ ev2 @ [StderrBanner, if toDelete = [] then StderrNothingToDelete
                                      else StderrDeleting (length toDelete)]"
proof -
  have fold_eq: "deleteAll e its r = fold (\<lambda>it r. snd (ManifestsDelete e it r)) its r" for its r
    by (induction its arbitrary: r) simp_all
  have paths: "namesForPaths (e\<lparr>ManifestsDelete := d\<rparr>) ps acc = namesForPaths e ps acc" for ps acc
    by (induction ps arbitrary: acc) (simp_all split: sum.splits)
  have "getSnapshotNamesToExpire (e\<lparr>ManifestsDelete := d\<rparr>) f = getSnapshotNamesToExpire e f"
    by (simp add: getSnapshotNamesToExpire_def paths)
  with names have names': "getSnapshotNamesToExpire (e\<lparr>ManifestsDelete := d\<rparr>) f = (ev1, Inr names)"
    by simp
  have single: "expireSnapshotsForSingleSource (e\<lparr>ManifestsDelete := d\<rparr>) g =
      expireSnapshotsForSingleSource e g" for g
    by (simp add: expireSnapshotsForSingleSource_def Let_def split: list.splits sum.splits)
  have grp: "expireGroups (e\<lparr>ManifestsDelete := d\<rparr>) gs acc = expireGroups e gs acc" for gs acc
    by (induction gs arbitrary: acc) (simp_all add: single)
  have "expireSnapshots (e\<lparr>ManifestsDelete := d\<rparr>) (filterHostAndUser f loaded) names =
      expireSnapshots e (filterHostAndUser f loaded) names"
    by (simp add: expireSnapshots_def grp)
  with cands have cands': "expireSnapshots (e\<lparr>ManifestsDelete := d\<rparr>) (filterHostAndUser f loaded) names =
      (ev2, Inr toDelete)"
    by simp
  have load': "LoadSnapshots (e\<lparr>ManifestsDelete := d\<rparr>) names = Inr loaded"
    using load by simp
  note run = runExpireCommand_after_candidates [OF names load cands, of rep]
  note run' = runExpireCommand_after_candidates [OF names' load' cands', of rep]
  show ?thesis
    by (simp add: run run' yes fold_eq)
qed

theorem C9_delete_results_discarded_witness:
  "fst (ManifestsDelete demo_env ''m1'' []) = Some ''delete failed'' \<and>
   runExpireCommand demo_env demo_flags [] =
     (([StderrScanningAll, LogDeleting 10, LogKeeping 20 ''latest-1'',
        StdoutWouldDelete 1 2 src_a, StderrBanner, StderrDeleting 1], Inr ()), [''m1''])"
proof -
  have cands: "expireSnapshots demo_env (filterHostAndUser demo_flags [man1, man2]) [''m1'', ''m2''] =
      ([LogDeleting 10, LogKeeping 20 ''latest-1'', StdoutWouldDelete 1 2 src_a], Inr [''m1''])"
    by (simp add: expireSnapshots_def demo_groups expireSnapshotsForSingleSource_def Let_def,
        simp add: demo_env_def keep_newest_def man1_def man2_def mk_manifest_def src_a_def)
  have yes: "snapshotExpireDelete demo_flags = ''yes''"
    by (simp add: demo_flags_def)
  note inst = C9_delete_results_discarded [OF demo_names demo_load cands yes, of "[]"]
  have fails: "fst (ManifestsDelete demo_env ''m1'' []) = Some ''delete failed''"
    by (simp add: demo_env_def)
  have del: "fold (\<lambda>it r. snd (ManifestsDelete demo_env it r)) [''m1''] [] = [''m1'']"
    by (simp add: demo_env_def)
  from inst fails del show ?thesis
    by (simp add: prod_eq_iff)
qed

section \<open>The list command: lemmas\<close>

text \<open>One round of the loop of \<^verbatim>\<open>outputManifestGroups\<close>, on a group that is not empty.\<close>

lemma outputGroups_Cons:
  "outputGroups e f parts ((s0 # ss) # groups) sep =
     (let listed = outputManifestFromSingleSource e f (retention_annotated e (s0 # ss)) parts;
          this = StdoutSource sep (Source s0)
                   # (if policy_found e (s0 # ss) then [] else [WarnNoPolicy (Source s0)])
                   @ fst listed;
          rest = outputGroups e f parts groups [CHR 0x0A]
      in if isl (snd listed) then (this, snd listed) else (this @ fst rest, snd rest))"
  by (cases "GetEffectivePolicy e (Source s0)")
     (auto simp: retention_annotated_def policy_found_def Let_def split: prod.splits sum.splits)

lemma outputGroups_empty_group:
  "outputGroups e f parts ([] # groups) sep = ([], Inl (Panic ''index out of range''))"
  by simp

declare outputGroups.simps(2) [simp del]

lemma outputManifests_no_line:
  assumes "IncompleteReason m \<noteq> ''''" and "\<not> snapshotListIncludeIncomplete f"
  shows "StdoutLine m oid bits \<notin> set (outputManifests e f parts ms lastTotalFileSize)"
  using assms
  by (induction ms arbitrary: lastTotalFileSize) (auto split: sum.splits option.splits)

lemma outputManifestFromSingleSource_no_line:
  assumes "IncompleteReason m \<noteq> ''''" and "\<not> snapshotListIncludeIncomplete f"
  shows "StdoutLine m oid bits \<notin> set (fst (outputManifestFromSingleSource e f ms parts))"
  by (simp add: outputManifestFromSingleSource_def Let_def outputManifests_no_line [OF assms])

lemma outputGroups_no_line:
  assumes "IncompleteReason m \<noteq> ''''" and "\<not> snapshotListIncludeIncomplete f"
  shows "StdoutLine m oid bits \<notin> set (fst (outputGroups e f parts groups sep))"
proof (induction groups arbitrary: sep)
  case Nil
  then show ?case by simp
next
  case (Cons g groups)
  show ?case
  proof (cases g)
    case Nil
    then show ?thesis by (simp add: outputGroups_empty_group)
  next
    case (Cons s0 ss)
    from Cons.IH [of "[CHR 0x0A]"]
      outputManifestFromSingleSource_no_line [OF assms, of oid bits e "retention_annotated e (s0 # ss)" parts]
    show ?thesis
      by (simp add: Cons outputGroups_Cons Let_def)
  qed
qed

text \<open>The expire command stops at the first group whose policy is not found.\<close>

lemma expireGroups_policy_failure:
  assumes "g \<in> set groups" and "\<not> policy_found e g"
  shows "isl (snd (expireGroups e groups acc))"
  using assms
proof (induction groups arbitrary: acc)
  case Nil
  then show ?case by simp
next
  case (Cons g' groups)
  show ?case
  proof (cases "expireSnapshotsForSingleSource e g'")
    case (Pair evs r)
    show ?thesis
    proof (cases r)
      case (Inl err)
      with Pair show ?thesis by simp
    next
      case (Inr td)
      with Pair have "policy_found e g'"
        by (auto simp: expireSnapshotsForSingleSource_def policy_found_def
              split: list.splits sum.splits)
      with Cons.prems have "g \<in> set groups" by auto
      from Cons.IH [OF this Cons.prems(2)] Pair Inr show ?thesis
        by (simp add: Let_def)
    qed
  qed
qed

lemma runExpireCommand_failure_keeps_repository:
  assumes "isl (snd (fst (runExpireCommand e f rep)))"
  shows "snd (runExpireCommand e f rep) = rep"
  using assms
  by (auto simp: runExpireCommand_def split: prod.splits sum.splits if_splits)

lemma namesForPaths_no_warning: "WarnNoPolicy s \<notin> set (fst (namesForPaths e ps acc))"
  by (induction ps arbitrary: acc) (auto simp: Let_def split: sum.splits)

lemma collectToDelete_no_warning: "WarnNoPolicy s \<notin> set (fst (collectToDelete ms))"
  by (induction ms) auto

lemma expireGroups_no_warning: "WarnNoPolicy s \<notin> set (fst (expireGroups e groups acc))"
proof (induction groups arbitrary: acc)
  case Nil
  then show ?case by simp
next
  case (Cons g groups)
  have "WarnNoPolicy s \<notin> set (fst (expireSnapshotsForSingleSource e g))"
    by (auto simp: expireSnapshotsForSingleSource_def Let_def collectToDelete_no_warning
          split: list.splits sum.splits)
  with Cons.IH show ?case
    by (auto simp: Let_def split: prod.splits sum.splits)
qed

lemma runExpireCommand_no_warning:
  "WarnNoPolicy s \<notin> set (fst (fst (runExpireCommand e f rep)))"
proof (cases "getSnapshotNamesToExpire e f")
  case (Pair ev1 r1)
  have "WarnNoPolicy s \<notin> set (fst (getSnapshotNamesToExpire e f))"
    by (simp add: getSnapshotNamesToExpire_def namesForPaths_no_warning)
  with Pair have n1: "WarnNoPolicy s \<notin> set ev1"
    by simp
  show ?thesis
  proof (cases r1)
    case (Inl err)
    with Pair n1 show ?thesis
      by (simp add: runExpireCommand_def)
  next
    case names: (Inr names)
    show ?thesis
    proof (cases "LoadSnapshots e names")
      case (Inl err)
      with Pair names n1 show ?thesis
        by (simp add: runExpireCommand_def)
    next
      case loaded: (Inr loaded)
      obtain ev2 r2 where cands:
        "expireSnapshots e (filterHostAndUser f loaded) names = (ev2, r2)"
        by (cases "expireSnapshots e (filterHostAndUser f loaded) names")
      have "WarnNoPolicy s \<notin> set (fst (expireSnapshots e (filterHostAndUser f loaded) names))"
        by (simp add: expireSnapshots_def expireGroups_no_warning)
      with cands have n2: "WarnNoPolicy s \<notin> set ev2"
        by simp
      from Pair names loaded cands n1 n2 show ?thesis
        by (cases r2) (simp_all add: runExpireCommand_def)
    qed
  qed
qed

section \<open>The claims about a failed policy lookup and about incomplete snapshots\<close>

text \<open>
  C5, as the two commands have it. When the effective policy of a group's source cannot be
  determined, \<^verbatim>\<open>snapshot list\<close> logs a warning for the source, lists the group as it is
  (\<^verbatim>\<open>ComputeRetentionReasons\<close> is not applied to it) and goes on with the groups that follow;
  \<^verbatim>\<open>snapshot expire\<close> returns the error of the lookup: the invocation fails, no warning is
  logged and nothing is deleted, for this source or any other.
\<close>

theorem C5_policy_lookup_failure:
  assumes fail: "GetEffectivePolicy e (Source s0) = Inl err"
    and names: "getSnapshotNamesToExpire e f = (ev1, Inr names)"
    and load: "LoadSnapshots e names = Inr loaded"
    and member: "s0 # ss \<in> set (GroupBySource e (filterHostAndUser f loaded))"
  shows "outputGroups e lf parts ((s0 # ss) # groups) sep =
           (let listed = outputManifestFromSingleSource e lf (s0 # ss) parts;
                this = StdoutSource sep (Source s0) # WarnNoPolicy (Source s0) # fst listed;
                rest = outputGroups e lf parts groups [CHR 0x0A]
            in if isl (snd listed) then (this, snd listed) else (this @ fst rest, snd rest)) \<and>
         expireSnapshotsForSingleSource e (s0 # ss) = ([], Inl (Error err)) \<and>
         isl (snd (fst (runExpireCommand e f rep))) \<and>
         snd (runExpireCommand e f rep) = rep \<and>
         WarnNoPolicy (Source s0) \<notin> set (fst (fst (runExpireCommand e f rep)))"
proof -
  have nf: "\<not> policy_found e (s0 # ss)"
    using fail by (simp add: policy_found_def)
  have same: "retention_annotated e (s0 # ss) = s0 # ss"
    using fail by (simp add: retention_annotated_def)
  have listing: "outputGroups e lf parts ((s0 # ss) # groups) sep =
      (let listed = outputManifestFromSingleSource e lf (s0 # ss) parts;
           this = StdoutSource sep (Source s0) # WarnNoPolicy (Source s0) # fst listed;
           rest = outputGroups e lf parts groups [CHR 0x0A]
       in if isl (snd listed) then (this, snd listed) else (this @ fst rest, snd rest))"
    by (simp add: outputGroups_Cons nf same)
  have single: "expireSnapshotsForSingleSource e (s0 # ss) = ([], Inl (Error err))"
    using fail by (simp add: expireSnapshotsForSingleSource_def)
  have "isl (snd (expireSnapshots e (filterHostAndUser f loaded) names))"
    using expireGroups_policy_failure [OF member nf] by (simp add: expireSnapshots_def)
  then obtain ev2 x where "expireSnapshots e (filterHostAndUser f loaded) names = (ev2, Inl x)"
    by (cases "expireSnapshots e (filterHostAndUser f loaded) names") (auto simp: isl_def)
  with names load have fatal: "isl (snd (fst (runExpireCommand e f rep)))"
    by (simp add: runExpireCommand_def)
  from listing single fatal runExpireCommand_failure_keeps_repository [OF fatal]
    runExpireCommand_no_warning [of "Source s0" e f rep]
  show ?thesis by blast
qed

lemma demo_path_names:
  "getSnapshotNamesToExpire demo_env demo_path_flags =
     ([LogLookingFor src_b, LogFound 1 src_b], Inr [''m5''])"
  by (simp add: getSnapshotNamesToExpire_def demo_env_def demo_path_flags_def)

lemma demo_path_groups:
  "GroupBySource demo_env (filterHostAndUser demo_path_flags [man5]) = [[man5]]"
  by (simp add: demo_env_def demo_path_flags_def filterHostAndUser_def)

lemma demo_no_policy: "GetEffectivePolicy demo_env (Source man5) = Inl ''no policy''"
  by (simp add: demo_env_def man5_def mk_manifest_def src_a_def src_b_def)

lemma demo_list_man5:
  "outputManifestFromSingleSource demo_env demo_list_flags [man5] [] =
     ([StdoutLine man5 ''obj'' ''100 B drwxr-xr-x''], Inr ())"
  by (simp add: outputManifestFromSingleSource_def demo_list_flags_def manifestBits_def
        demo_env_def dir_entry_def man5_def mk_manifest_def)

lemma demo_list_src_a:
  "outputGroups demo_env demo_list_flags [] [[man1, man2]] [CHR 0x0A] =
     ([StdoutSource [CHR 0x0A] src_a,
       StdoutLine man1 ''obj'' ''100 B drwxr-xr-x'',
       StdoutLine (man2\<lparr>RetentionReasons := [''latest-1'']\<rparr>) ''obj''
         ''100 B drwxr-xr-x retention:latest-1''], Inr ())"
  by (simp add: outputGroups_Cons demo_annotated demo_found outputManifestFromSingleSource_def,
      simp add: demo_list_flags_def manifestBits_def demo_env_def dir_entry_def man1_def man2_def
        mk_manifest_def)

theorem C5_policy_lookup_failure_witness:
  "outputGroups demo_env demo_list_flags [] [[man5], [man1, man2]] '''' =
     ([StdoutSource '''' src_b, WarnNoPolicy src_b,
       StdoutLine man5 ''obj'' ''100 B drwxr-xr-x'',
       StdoutSource [CHR 0x0A] src_a,
       StdoutLine man1 ''obj'' ''100 B drwxr-xr-x'',
       StdoutLine (man2\<lparr>RetentionReasons := [''latest-1'']\<rparr>) ''obj''
         ''100 B drwxr-xr-x retention:latest-1''], Inr ()) \<and>
   expireSnapshotsForSingleSource demo_env [man5] = ([], Inl (Error ''no policy'')) \<and>
   isl (snd (fst (runExpireCommand demo_env demo_path_flags []))) \<and>
   snd (runExpireCommand demo_env demo_path_flags []) = []"
proof -
  have load: "LoadSnapshots demo_env [''m5''] = Inr [man5]"
    by (simp add: demo_env_def)
  have member: "man5 # [] \<in> set (GroupBySource demo_env (filterHostAndUser demo_path_flags [man5]))"
    by (simp add: demo_path_groups)
  note inst = C5_policy_lookup_failure [OF demo_no_policy demo_path_names load member,
      of demo_list_flags "[]" "[[man1, man2]]" "''''" "[]"]
  have src: "Source man5 = src_b"
    by (simp add: man5_def mk_manifest_def)
  from inst show ?thesis
    by (simp add: demo_list_man5 demo_list_src_a src)
qed

theorem C5_counterexample:
  "GetEffectivePolicy demo_env (Source man5) = Inl ''no policy'' \<and>
   runExpireCommand demo_env demo_path_flags [] =
     (([LogLookingFor src_b, LogFound 1 src_b], Inl (Error ''no policy'')), [])"
proof -
  have single: "expireSnapshotsForSingleSource demo_env [man5] = ([], Inl (Error ''no policy''))"
    by (simp add: expireSnapshotsForSingleSource_def demo_no_policy)
  have load: "LoadSnapshots demo_env [''m5''] = Inr [man5]"
    by (simp add: demo_env_def)
  show ?thesis
    by (simp add: demo_no_policy runExpireCommand_def demo_path_names load expireSnapshots_def
          demo_path_groups single)
qed

text \<open>One round of the loop of \<^verbatim>\<open>outputManifestFromSingleSource\<close> on an incomplete manifest.\<close>

lemma manifestBits_incomplete:
  assumes "IncompleteReason m \<noteq> ''''"
  shows "manifestBits e f m ent lastTotalFileSize =
           (''incomplete:'' @ IncompleteReason m)
             # manifestBits e f (m\<lparr>IncompleteReason := ''''\<rparr>) ent lastTotalFileSize"
  using assms by (simp add: manifestBits_def)

lemma outputManifests_incomplete_round:
  assumes "IncompleteReason m \<noteq> ''''"
  shows "outputManifests e f parts (m # ms) lastTotalFileSize =
           (case SnapshotRoot e m of
              Inl err \<Rightarrow> [StdoutError m err]
            | Inr root \<Rightarrow>
                (case getNestedEntry e root parts of
                   Inl err \<Rightarrow> [StdoutError m err]
                 | Inr ent \<Rightarrow>
                     (case ObjectID ent of
                        None \<Rightarrow> [WarnNoObjectID ent]
                      | Some ident \<Rightarrow>
                          if snapshotListIncludeIncomplete f
                          then [StdoutLine m ident
                                  (strings_Join
                                     ((''incomplete:'' @ IncompleteReason m)
                                        # manifestBits e f (m\<lparr>IncompleteReason := ''''\<rparr>) ent
                                            lastTotalFileSize) '' '')]
                          else [])))
           @ outputManifests e f parts ms lastTotalFileSize"
  using assms manifestBits_incomplete [OF assms, of e f]
  by (simp split: sum.splits option.splits)

lemma outputManifests_root_error:
  assumes "m \<in> set ms" and "SnapshotRoot e m = Inl err"
  shows "StdoutError m err \<in> set (outputManifests e f parts ms lastTotalFileSize)"
  using assms
  by (induction ms arbitrary: lastTotalFileSize) (auto split: sum.splits option.splits)

lemma outputManifests_nested_error:
  assumes "m \<in> set ms" and "SnapshotRoot e m = Inr root" and "getNestedEntry e root parts = Inl err"
  shows "StdoutError m err \<in> set (outputManifests e f parts ms lastTotalFileSize)"
  using assms
  by (induction ms arbitrary: lastTotalFileSize) (auto split: sum.splits option.splits)

lemma outputManifestFromSingleSource_loop:
  assumes "0 \<le> maxResultsPerPath f"
  shows "outputManifestFromSingleSource e f manifests parts =
           (outputManifests e f parts
              (drop (length (SortByTime e manifests False) - nat (maxResultsPerPath f))
                 (SortByTime e manifests False)) 0, Inr ())"
  using assms by (auto simp: outputManifestFromSingleSource_def Let_def)

text \<open>
  C10, as the loop has it. For a manifest with a non-empty \<^verbatim>\<open>IncompleteReason\<close>: while
  \<^verbatim>\<open>--incomplete\<close> is not set, no listing line is printed for it, by
  \<^verbatim>\<open>outputManifestFromSingleSource\<close> or by the whole listing. Its round of the loop writes,
  whatever the flag, an \<^verbatim>\<open><ERROR>\<close> line when its root or its nested entry cannot be read
  (these lookups come first), a warning when the entry has no object identifier, and
  otherwise its line exactly when \<^verbatim>\<open>--incomplete\<close> is set, the line having
  \<^verbatim>\<open>incomplete:\<close> and the reason before the bits a complete manifest would have, retention
  reasons among them; the round leaves \<^verbatim>\<open>lastTotalFileSize\<close> as it was. The listing of a
  source is this loop on the last \<^verbatim>\<open>max-results\<close> manifests in the order of \<^verbatim>\<open>SortByTime\<close>.
  Whatever the flag, when the policy of its source is found the listing hands the group as a
  whole, complete manifests or not, to \<^verbatim>\<open>ComputeRetentionReasons\<close>, and lists what that
  leaves.
\<close>

theorem C10_incomplete_not_listed:
  "(IncompleteReason m \<noteq> '''' \<longrightarrow>
      (\<not> snapshotListIncludeIncomplete f \<longrightarrow>
         StdoutLine m oid bits \<notin> set (fst (outputManifestFromSingleSource e f manifests parts)) \<and>
         StdoutLine m oid bits \<notin> set (fst (outputManifestGroups e f allManifests parts))) \<and>
      outputManifests e f parts (m # ms) lastTotalFileSize =
        (case SnapshotRoot e m of
           Inl err \<Rightarrow> [StdoutError m err]
         | Inr root \<Rightarrow>
             (case getNestedEntry e root parts of
                Inl err \<Rightarrow> [StdoutError m err]
              | Inr ent \<Rightarrow>
                  (case ObjectID ent of
                     None \<Rightarrow> [WarnNoObjectID ent]
                   | Some ident \<Rightarrow>
                       if snapshotListIncludeIncomplete f
                       then [StdoutLine m ident
                               (strings_Join
                                  ((''incomplete:'' @ IncompleteReason m)
                                     # manifestBits e f (m\<lparr>IncompleteReason := ''''\<rparr>) ent
                                         lastTotalFileSize) '' '')]
                       else [])))
        @ outputManifests e f parts ms lastTotalFileSize \<and>
      (m \<in> set listed \<and> SnapshotRoot e m = Inl rootError \<longrightarrow>
         StdoutError m rootError \<in> set (outputManifests e f parts listed lastSize)) \<and>
      (m \<in> set listed \<and> SnapshotRoot e m = Inr rootEntry \<and>
       getNestedEntry e rootEntry parts = Inl nestedError \<longrightarrow>
         StdoutError m nestedError \<in> set (outputManifests e f parts listed lastSize))) \<and>
   (0 \<le> maxResultsPerPath f \<longrightarrow>
      outputManifestFromSingleSource e f manifests parts =
        (outputManifests e f parts
           (drop (length (SortByTime e manifests False) - nat (maxResultsPerPath f))
              (SortByTime e manifests False)) 0, Inr ())) \<and>
   (GetEffectivePolicy e (Source s0) = Inr pol \<longrightarrow>
      outputGroups e f parts ((s0 # ss) # groups) sep =
        (let listing = outputManifestFromSingleSource e f
                         (ComputeRetentionReasons e pol (s0 # ss)) parts;
             this = StdoutSource sep (Source s0) # fst listing;
             rest = outputGroups e f parts groups [CHR 0x0A]
         in if isl (snd listing) then (this, snd listing) else (this @ fst rest, snd rest)))"
proof -
  have hidden: "StdoutLine m oid bits \<notin> set (fst (outputManifestFromSingleSource e f manifests parts)) \<and>
      StdoutLine m oid bits \<notin> set (fst (outputManifestGroups e f allManifests parts))"
    if "IncompleteReason m \<noteq> ''''" and "\<not> snapshotListIncludeIncomplete f"
    using outputManifestFromSingleSource_no_line [OF that, of oid bits e manifests parts]
      outputGroups_no_line [OF that, of oid bits e parts "GroupBySource e allManifests" "[]"]
    by (simp add: outputManifestGroups_def)
  have handed: "outputGroups e f parts ((s0 # ss) # groups) sep =
      (let listing = outputManifestFromSingleSource e f
                       (ComputeRetentionReasons e pol (s0 # ss)) parts;
           this = StdoutSource sep (Source s0) # fst listing;
           rest = outputGroups e f parts groups [CHR 0x0A]
       in if isl (snd listing) then (this, snd listing) else (this @ fst rest, snd rest))"
    if "GetEffectivePolicy e (Source s0) = Inr pol"
    using that by (simp add: outputGroups_Cons policy_found_def retention_annotated_def)
  from hidden handed outputManifests_incomplete_round [of m e f parts ms lastTotalFileSize]
    outputManifests_root_error [of m listed e rootError f parts lastSize]
    outputManifests_nested_error [of m listed e rootEntry parts nestedError f lastSize]
    outputManifestFromSingleSource_loop [of f e manifests parts]
  show ?thesis
    by blast
qed

lemma demo_round_hidden:
  "outputManifests demo_env demo_list_flags [] [man4, man1] 0 =
     [StdoutLine man1 ''obj'' ''100 B drwxr-xr-x'']"
  by (simp add: demo_list_flags_def manifestBits_def demo_env_def dir_entry_def man1_def man4_def
        mk_manifest_def)

theorem C10_incomplete_not_listed_witness:
  "IncompleteReason man4 = ''cancelled'' \<and> IncompleteReason man3 = ''checkpoint'' \<and>
   outputManifestFromSingleSource demo_env demo_list_flags [man4, man1] [] =
     ([StdoutLine man1 ''obj'' ''100 B drwxr-xr-x''], Inr ()) \<and>
   StdoutLine man4 ''obj'' ''incomplete:cancelled 100 B drwxr-xr-x''
     \<notin> set (fst (outputManifestFromSingleSource demo_env demo_list_flags [man4, man1] [])) \<and>
   outputManifests demo_env demo_incomplete_flags [] [man4, man1] 0 =
     [StdoutLine man4 ''obj'' ''incomplete:cancelled 100 B drwxr-xr-x'',
      StdoutLine man1 ''obj'' ''100 B drwxr-xr-x''] \<and>
   StdoutError man3 ''no root'' \<in> set (outputManifests demo_env demo_incomplete_flags [] [man1, man3] 0) \<and>
   StdoutError man3 ''no root'' \<in> set (outputManifests demo_env demo_list_flags [] [man1, man3] 0) \<and>
   StdoutError man4 ''no such entry''
     \<in> set (outputManifests demo_env demo_incomplete_flags [''sub''] [man1, man4] 0) \<and>
   StdoutError man4 ''no such entry''
     \<in> set (outputManifests demo_env demo_list_flags [''sub''] [man1, man4] 0) \<and>
   fst (outputGroups demo_env demo_incomplete_flags [] [[man1, man4]] []) =
     StdoutSource [] src_a
       # fst (outputManifestFromSingleSource demo_env demo_incomplete_flags
                (keep_newest 1 [man1, man4]) [])"
proof -
  have inc4: "IncompleteReason man4 = ''cancelled''" and inc3: "IncompleteReason man3 = ''checkpoint''"
    by (simp_all add: man4_def man3_def mk_manifest_def)
  have unset: "\<not> snapshotListIncludeIncomplete demo_list_flags"
    and set: "snapshotListIncludeIncomplete demo_incomplete_flags"
    and cap: "0 \<le> maxResultsPerPath demo_list_flags"
    by (simp_all add: demo_list_flags_def demo_incomplete_flags_def)
  have root4: "SnapshotRoot demo_env man4 = Inr dir_entry"
    and nested: "getNestedEntry demo_env dir_entry [] = Inr dir_entry"
    and ident: "ObjectID dir_entry = Some ''obj''"
    and root3: "SnapshotRoot demo_env man3 = Inl ''no root''"
    and sorted: "SortByTime demo_env [man4, man1] False = [man4, man1]"
    and pol: "GetEffectivePolicy demo_env (Source man1) = Inr 1"
    and src: "Source man1 = src_a"
    and cr: "ComputeRetentionReasons demo_env = keep_newest"
    by (simp_all add: demo_env_def dir_entry_def man1_def man3_def man4_def mk_manifest_def)
  have rest: "outputManifests demo_env demo_incomplete_flags [] [man1] 0 =
      [StdoutLine man1 ''obj'' ''100 B drwxr-xr-x'']"
    by (simp add: demo_incomplete_flags_def demo_list_flags_def manifestBits_def demo_env_def
          dir_entry_def man1_def mk_manifest_def)
  have bits: "manifestBits demo_env demo_incomplete_flags (man4\<lparr>IncompleteReason := ''''\<rparr>)
      dir_entry 0 = [''100 B'', ''drwxr-xr-x'']"
    by (simp add: demo_incomplete_flags_def demo_list_flags_def manifestBits_def demo_env_def
          dir_entry_def man4_def mk_manifest_def)
  have inc4': "IncompleteReason man4 \<noteq> ''''" and inc3': "IncompleteReason man3 \<noteq> ''''"
    by (simp_all add: inc4 inc3)
  have member: "man3 \<in> set [man1, man3] \<and> SnapshotRoot demo_env man3 = Inl ''no root''"
    by (simp add: root3)
  have member4: "man4 \<in> set [man1, man4] \<and> SnapshotRoot demo_env man4 = Inr dir_entry \<and>
      getNestedEntry demo_env dir_entry [''sub''] = Inl ''no such entry''"
    by (simp add: root4, simp add: demo_env_def)
  have mx: "maxResultsPerPath demo_list_flags = 1000"
    by (simp add: demo_list_flags_def)
  note off = C10_incomplete_not_listed [where m = man4 and f = demo_list_flags and e = demo_env
      and manifests = "[man4, man1]" and parts = "[]"
      and oid = "''obj''" and bits = "''incomplete:cancelled 100 B drwxr-xr-x''"]
  note on = C10_incomplete_not_listed [where m = man4 and f = demo_incomplete_flags and e = demo_env
      and parts = "[]" and ms = "[man1]" and lastTotalFileSize = 0
      and ?s0.0 = man1 and pol = 1 and ss = "[man4]" and groups = "[]" and sep = "[]"]
  note err_on = C10_incomplete_not_listed [where m = man3 and f = demo_incomplete_flags
      and e = demo_env and parts = "[]" and listed = "[man1, man3]" and lastSize = 0
      and rootError = "''no root''"]
  note err_off = C10_incomplete_not_listed [where m = man3 and f = demo_list_flags
      and e = demo_env and parts = "[]" and listed = "[man1, man3]" and lastSize = 0
      and rootError = "''no root''"]
  note nested_on = C10_incomplete_not_listed [where m = man4 and f = demo_incomplete_flags
      and e = demo_env and parts = "[''sub'']" and listed = "[man1, man4]" and lastSize = 0
      and rootEntry = dir_entry and nestedError = "''no such entry''"]
  note nested_off = C10_incomplete_not_listed [where m = man4 and f = demo_list_flags
      and e = demo_env and parts = "[''sub'']" and listed = "[man1, man4]" and lastSize = 0
      and rootEntry = dir_entry and nestedError = "''no such entry''"]
  note b = off [THEN conjunct1, THEN mp, OF inc4', THEN conjunct1, THEN mp, OF unset, THEN conjunct1]
  note loop = off [THEN conjunct2, THEN conjunct1, THEN mp, OF cap]
  have a: "outputManifestFromSingleSource demo_env demo_list_flags [man4, man1] [] =
      ([StdoutLine man1 ''obj'' ''100 B drwxr-xr-x''], Inr ())"
  proof -
    have kept: "drop (length [man4, man1] - nat 1000) [man4, man1] = [man4, man1]"
      by simp
    show ?thesis
      by (simp only: loop sorted mx kept demo_round_hidden)
  qed
  note round = on [THEN conjunct1, THEN mp, OF inc4', THEN conjunct2, THEN conjunct1]
  have c: "outputManifests demo_env demo_incomplete_flags [] [man4, man1] 0 =
      [StdoutLine man4 ''obj'' ''incomplete:cancelled 100 B drwxr-xr-x'',
       StdoutLine man1 ''obj'' ''100 B drwxr-xr-x'']"
    unfolding round
    by (simp del: outputManifests.simps add: root4 nested ident set rest bits inc4)
  note d = err_on [THEN conjunct1, THEN mp, OF inc3', THEN conjunct2, THEN conjunct2,
      THEN conjunct1, THEN mp, OF member]
  note d' = err_off [THEN conjunct1, THEN mp, OF inc3', THEN conjunct2, THEN conjunct2,
      THEN conjunct1, THEN mp, OF member]
  note n = nested_on [THEN conjunct1, THEN mp, OF inc4', THEN conjunct2, THEN conjunct2,
      THEN conjunct2, THEN mp, OF member4]
  note n' = nested_off [THEN conjunct1, THEN mp, OF inc4', THEN conjunct2, THEN conjunct2,
      THEN conjunct2, THEN mp, OF member4]
  note handed = on [THEN conjunct2, THEN conjunct2, THEN mp, OF pol]
  have g: "fst (outputGroups demo_env demo_incomplete_flags [] [[man1, man4]] []) =
      StdoutSource [] src_a
        # fst (outputManifestFromSingleSource demo_env demo_incomplete_flags
                 (keep_newest 1 [man1, man4]) [])"
    unfolding handed
    by (simp add: src cr Let_def)
  from inc4 inc3 a b c d d' n n' g show ?thesis
    by (intro conjI)
qed

theorem C10_counterexample:
  "IncompleteReason man3 \<noteq> '''' \<and> \<not> snapshotListIncludeIncomplete demo_list_flags \<and>
   fst (outputManifestFromSingleSource demo_env demo_list_flags [man3] []) =
     [StdoutError man3 ''no root'']"
  by (simp add: outputManifestFromSingleSource_def demo_list_flags_def demo_env_def man3_def
        mk_manifest_def)

section \<open>The block cache: the model against the test\<close>

lemma test_block_1: "newUnderlyingStorageForBlockCacheTesting ''block-1'' = Some (Readable block_1)"
  by (simp add: newUnderlyingStorageForBlockCacheTesting_def)

lemma test_no_such_block: "newUnderlyingStorageForBlockCacheTesting ''no-such-block'' = None"
  by (simp add: newUnderlyingStorageForBlockCacheTesting_def)

text \<open>
  The model returns, call after call from an empty cache storage whose writes succeed, what
  \<^verbatim>\<open>verifyBlockCache\<close> expects of \<^verbatim>\<open>getContentBlock\<close>.
\<close>

lemma model_passes_verifyBlockCache_cases:
  "fst (get_ranges rewritten_key writes_succeed newUnderlyingStorageForBlockCacheTesting Map.empty
          (map fst verifyBlockCache_cases)) = map snd verifyBlockCache_cases"
  by (simp add: verifyBlockCache_cases_def get_range_def storage_get_def payload_range_def
        test_block_1 test_no_such_block rewritten_key_def marker_def block_1_def
        writes_succeed_def)

text \<open>
  The keys it leaves in the cache storage are the cache keys of the successful calls with
  the marker appended. They are not the keys the test expects to find there
  (\<^verbatim>\<open>f0f0f1x\<close> for the cache key \<^verbatim>\<open>xf0f0f1\<close>, and \<^verbatim>\<open>f0f0f5\<close>, without a marker, for
  \<^verbatim>\<open>f0f0f5\<close>): the key rewriting of the code is not the one the spec describes, which is why
  it is a parameter of \<open>get_range\<close> and why no statement below depends on it.
\<close>

lemma model_keys_after_verifyBlockCache_cases:
  "dom (snd (get_ranges rewritten_key writes_succeed newUnderlyingStorageForBlockCacheTesting
          Map.empty (map fst verifyBlockCache_cases))) = {''f0f0f5x'', ''xf0f0f2x'', ''xf0f0f1x''}"
  by (simp add: verifyBlockCache_cases_def get_range_def storage_get_def payload_range_def
        test_block_1 test_no_such_block rewritten_key_def marker_def block_1_def
        writes_succeed_def)

lemma expectedBlocks_not_rewritten_keys:
  "set verifyBlockCache_expectedBlocks \<noteq> {''f0f0f5x'', ''xf0f0f2x'', ''xf0f0f1x''} \<and>
   last ''f0f0f5'' \<noteq> marker \<and> ''f0f0f5'' \<in> set verifyBlockCache_expectedBlocks"
proof -
  have a: "''f0f0f5'' \<in> set verifyBlockCache_expectedBlocks"
    by (simp add: verifyBlockCache_expectedBlocks_def)
  have b: "''f0f0f5'' \<notin> {''f0f0f5x'', ''xf0f0f2x'', ''xf0f0f1x''}"
    by simp
  have c: "last ''f0f0f5'' \<noteq> marker"
    by (simp add: marker_def)
  from a b c show ?thesis
    by metis
qed

section \<open>The block cache: hits and misses\<close>








section \<open>The claims about the block cache\<close>










end
